theory Spec2Isabelle
  imports Main "HOL-Library.Sublist"
begin

section \<open>The launcher of OpenShot (src/launch.py)\<close>

text \<open>
  \<^verbatim>\<open>launch.py\<close> is a script: its module body runs first (imports, the call of
  \<^verbatim>\<open>exceptions.init_sentry_tracing()\<close>, the global \<^verbatim>\<open>app = None\<close>), then \<^verbatim>\<open>main()\<close>.
  \<^verbatim>\<open>main\<close> reads the command line with \<^verbatim>\<open>argparse\<close>, writes attributes of the module
  \<^verbatim>\<open>info\<close>, extends \<^verbatim>\<open>sys.path\<close>, builds the \<^verbatim>\<open>OpenShotApp\<close> and ends in \<^verbatim>\<open>sys.exit\<close>.

  The embedding passes the mutable part of the process as a record \<open>state\<close> and the part that
  \<^verbatim>\<open>main\<close> only reads as a record \<open>env\<close>. Exceptions are values of the type \<open>exn\<close>;
  \<^verbatim>\<open>main\<close> never returns normally (its last statement is \<^verbatim>\<open>sys.exit\<close>), so its result is the
  exception that leaves it, paired with the state at that moment.
\<close>

subsection \<open>The parsed command line\<close>

text \<open>
  The namespace that \<^verbatim>\<open>parser.parse_known_args()\<close> returns, one field per
  \<^verbatim>\<open>add_argument\<close>, with the \<^verbatim>\<open>dest\<close> names of the source. \<^verbatim>\<open>--lang\<close> is \<^verbatim>\<open>None\<close> when
  absent; \<^verbatim>\<open>--path\<close> has \<^verbatim>\<open>action='append'\<close>, so it is \<^verbatim>\<open>None\<close> when absent and the list
  of its values, in command-line order, otherwise. The second component of the parser's
  result, the list of unrecognised tokens, is the argument \<open>extra_args\<close> of \<open>main\<close>.
  The parser itself is the standard library's and is not modelled: a command line it rejects
  ends the process inside \<^verbatim>\<open>parse_known_args\<close>, before any statement modelled here.
\<close>

record args =
  lang :: "string option"
  list_languages :: bool
  py_path :: "string list option"
  modeltest :: bool
  web_backend :: string
  debug :: bool
  debug_file :: bool
  debug_console :: bool
  version :: bool
  remain :: "string list"

subsection \<open>Exceptions, collaborator calls, the process\<close>

text \<open>
  \<open>SystemExit c\<close> is what \<^verbatim>\<open>sys.exit(c)\<close> raises (\<open>None\<close> for \<^verbatim>\<open>sys.exit()\<close>);
  \<open>AttributeError\<close> is what a method call on \<^verbatim>\<open>None\<close> raises.
\<close>

datatype exn = SystemExit "int option" | AttributeError string

text \<open>
  The application object is opaque: a handle is the identity of a constructed
  \<^verbatim>\<open>OpenShotApp\<close>. Calls into the collaborators (the tracing hook, the constructor, the
  methods of the handle) are recorded in the order in which they are made.
\<close>

type_synonym handle = nat

datatype event =
    init_sentry_tracing
  | Construct "string list"
  | show_errors handle
  | setApplicationName handle string
  | setApplicationVersion handle string
  | setDesktopFile handle string
  | gui handle
  | exec_loop handle

fun is_Construct :: "event \<Rightarrow> bool" where
  "is_Construct (Construct argv) = True"
| "is_Construct ev = False"

text \<open>
  What \<^verbatim>\<open>main\<close> reads and never writes. \<open>realpath\<close> is \<^verbatim>\<open>os.path.realpath\<close>, with
  \<open>Inl msg\<close> for a \<^verbatim>\<open>TypeError\<close> whose text is \<open>msg\<close> (the exception the source catches);
  \<open>path_exists\<close> is \<^verbatim>\<open>os.path.exists\<close>; \<open>environ\<close> is \<^verbatim>\<open>os.environ\<close>, which
  \<^verbatim>\<open>os.getenv\<close> reads. \<open>OpenShotApp argv\<close> is the constructor: \<open>Inl msg\<close> when it raises
  an \<^verbatim>\<open>Exception\<close>, \<open>Inr h\<close> when it returns the handle \<open>h\<close>. \<open>has_setDesktopFile\<close> says
  whether the Qt in use has \<^verbatim>\<open>setDesktopFile\<close> (Qt 5.7+); \<open>exec_result h\<close> is what
  \<^verbatim>\<open>h.exec_()\<close> returns. \<open>classes_importable\<close> says whether the first
  \<^verbatim>\<open>from classes import info, exceptions\<close> of the module body succeeds.
\<close>

record env =
  argv0 :: string
  SETUP_version :: string
  PATH :: string
  SUPPORTED_LANGUAGES :: "string list"
  get_all_languages :: "(string \<times> string) list"
  realpath :: "string \<Rightarrow> string + string"
  path_exists :: "string \<Rightarrow> bool"
  environ :: "(string \<times> string) list"
  OpenShotApp :: "string list \<Rightarrow> string + handle"
  has_setDesktopFile :: bool
  exec_result :: "handle \<Rightarrow> int"
  classes_importable :: bool
  OPENSHOT_PATH :: string

text \<open>
  What the script writes: \<^verbatim>\<open>sys.path\<close>, the attributes of \<^verbatim>\<open>info\<close> it assigns, the
  calls of \<^verbatim>\<open>os.putenv\<close> (which change the C environment and not \<^verbatim>\<open>os.environ\<close>), the
  module's global \<^verbatim>\<open>app\<close>, the lines printed, and the collaborator calls made.
\<close>

record state =
  sys_path :: "string list"
  LOG_LEVEL_FILE :: string
  LOG_LEVEL_CONSOLE :: string
  MODEL_TEST :: bool
  WEB_BACKEND :: string
  CMDLINE_LANGUAGE :: "string option"
  putenv_calls :: "(string \<times> string) list"
  app :: "handle option"
  stdout :: "string list"
  calls :: "event list"

definition print_line :: "string \<Rightarrow> state \<Rightarrow> state" where
  "print_line l s = s\<lparr>stdout := stdout s @ [l]\<rparr>"

definition call :: "event \<Rightarrow> state \<Rightarrow> state" where
  "call ev s = s\<lparr>calls := calls s @ [ev]\<rparr>"

definition getenv :: "env \<Rightarrow> string \<Rightarrow> string option" where
  "getenv e k = map_of (environ e) k"

text \<open>\<^verbatim>\<open>str.lower()\<close>, on the ASCII letters (a \<open>char\<close> is a byte).\<close>

definition lower_char :: "char \<Rightarrow> char" where
  "lower_char c =
     (let n = (of_char c :: nat) in if 65 \<le> n \<and> n \<le> 90 then char_of (n + 32) else c)"

definition lower :: "string \<Rightarrow> string" where
  "lower w = map lower_char w"

text \<open>The exit status the interpreter gives the process for an exception that leaves
  \<^verbatim>\<open>main\<close>: the code of \<^verbatim>\<open>sys.exit\<close> (0 for none), and 1 for an uncaught error.\<close>

fun exit_code :: "exn \<Rightarrow> int" where
  "exit_code (SystemExit None) = 0"
| "exit_code (SystemExit (Some c)) = c"
| "exit_code (AttributeError msg) = 1"

subsection \<open>The module body\<close>

text \<open>
  Lines 72 to 83: when \<^verbatim>\<open>classes\<close> cannot be imported, \<^verbatim>\<open>openshot_qt.OPENSHOT_PATH\<close> is
  appended to \<^verbatim>\<open>sys.path\<close>; then the tracing hook is called and \<^verbatim>\<open>app\<close> is bound to
  \<^verbatim>\<open>None\<close>. (The three guarded Qt attribute settings of lines 50 to 70 touch nothing of
  the state.)
\<close>

definition module_body :: "env \<Rightarrow> state \<Rightarrow> state" where
  "module_body e s =
     (let s1 = (if classes_importable e then s
                else s\<lparr>sys_path := sys_path s @ [OPENSHOT_PATH e]\<rparr>)
      in (call init_sentry_tracing s1)\<lparr>app := None\<rparr>)"

subsection \<open>The steps of main\<close>

text \<open>Lines 134 to 138.\<close>

definition set_log_levels :: "args \<Rightarrow> state \<Rightarrow> state" where
  "set_log_levels a s =
     (let s1 = (if debug a \<or> debug_file a then s\<lparr>LOG_LEVEL_FILE := ''DEBUG''\<rparr> else s)
      in if debug a \<or> debug_console a then s1\<lparr>LOG_LEVEL_CONSOLE := ''DEBUG''\<rparr> else s1)"

text \<open>Lines 142 to 144: the code is right-aligned in a field of width 12.\<close>

definition language_line :: "string \<times> string \<Rightarrow> string" where
  "language_line cl =
     ''  '' @ replicate (12 - length (fst cl)) CHR '' '' @ fst cl @ ''  '' @ snd cl"

definition print_languages :: "env \<Rightarrow> state \<Rightarrow> state" where
  "print_languages e s =
     fold (\<lambda>cl. print_line (language_line cl)) (get_all_languages e)
       (print_line ''Supported Languages:'' s)"

text \<open>
  Lines 148 to 157, one pass of the loop body per path. \<^verbatim>\<open>sys.path.insert(0, x)\<close> puts
  \<open>x\<close> in front. A \<^verbatim>\<open>TypeError\<close> of \<^verbatim>\<open>realpath\<close> is caught and reported with the path as
  given; the two other messages print the resolved path.
\<close>

definition add_path :: "env \<Rightarrow> string \<Rightarrow> state \<Rightarrow> state" where
  "add_path e p s =
     (case realpath e p of
        Inl ex \<Rightarrow> print_line (''Bad path '' @ p @ '': '' @ ex) s
      | Inr rp \<Rightarrow>
          if path_exists e rp
          then print_line (''Added '' @ rp @ '' to PYTHONPATH'') (s\<lparr>sys_path := rp # sys_path s\<rparr>)
          else print_line (rp @ '' does not exist'') s)"

fun add_paths :: "env \<Rightarrow> string list \<Rightarrow> state \<Rightarrow> state" where
  "add_paths e [] s = s"
| "add_paths e (p # ps) s = add_paths e ps (add_path e p s)"

text \<open>Line 147: \<^verbatim>\<open>if args.py_path:\<close> skips \<^verbatim>\<open>None\<close> and the empty list.\<close>

definition extend_sys_path :: "env \<Rightarrow> args \<Rightarrow> state \<Rightarrow> state" where
  "extend_sys_path e a s =
     (case py_path a of None \<Rightarrow> s | Some ps \<Rightarrow> if ps = [] then s else add_paths e ps s)"

text \<open>Lines 159 to 163.\<close>

definition set_model_test :: "env \<Rightarrow> args \<Rightarrow> state \<Rightarrow> state" where
  "set_model_test e a s =
     (if modeltest a
      then (let s1 = s\<lparr>MODEL_TEST := True\<rparr>
            in if getenv e ''QT_LOGGING_RULES'' = None
               then s1\<lparr>putenv_calls :=
                         putenv_calls s1 @ [(''QT_LOGGING_RULES'', ''qt.modeltest.debug=true'')]\<rparr>
               else s1)
      else s)"

text \<open>Lines 164 and 165: \<^verbatim>\<open>if args.web_backend:\<close> skips the empty string.\<close>

definition set_web_backend :: "args \<Rightarrow> state \<Rightarrow> state" where
  "set_web_backend a s =
     (if web_backend a \<noteq> [] then s\<lparr>WEB_BACKEND := lower (web_backend a)\<rparr> else s)"

text \<open>
  Lines 166 to 171. \<^verbatim>\<open>if args.lang:\<close> skips \<^verbatim>\<open>None\<close> and the empty string. The result is
  \<open>Inl\<close> when \<^verbatim>\<open>sys.exit(-1)\<close> ends \<^verbatim>\<open>main\<close>, and \<open>Inr\<close> the state to go on with.
\<close>

definition unsupported_message :: "string \<Rightarrow> string" where
  "unsupported_message l =
     ''Unsupported language '' @ [CHR 0x27] @ l @ [CHR 0x27] @ ''! (See --list-languages)''"

definition set_language :: "env \<Rightarrow> args \<Rightarrow> state \<Rightarrow> (exn \<times> state) + state" where
  "set_language e a s =
     (case lang a of
        None \<Rightarrow> Inr s
      | Some l \<Rightarrow>
          if l = [] then Inr s
          else if l \<in> set (SUPPORTED_LANGUAGES e) then Inr (s\<lparr>CMDLINE_LANGUAGE := Some l\<rparr>)
          else Inl (SystemExit (Some (- 1)), print_line (unsupported_message l) s))"

text \<open>The text of the \<^verbatim>\<open>AttributeError\<close> for a method looked up on \<^verbatim>\<open>None\<close>.\<close>

definition none_has_no_attribute :: "string \<Rightarrow> string" where
  "none_has_no_attribute m =
     [CHR 0x27] @ ''NoneType'' @ [CHR 0x27] @ '' object has no attribute '' @
     [CHR 0x27] @ m @ [CHR 0x27]"

text \<open>
  Lines 187 to 198, on the global \<^verbatim>\<open>app\<close>: the identity of the application is set, the
  desktop file too where Qt has the method (the \<^verbatim>\<open>AttributeError\<close> is swallowed otherwise),
  the GUI is started, and the event loop's result becomes the exit code.
\<close>

definition run_app :: "env \<Rightarrow> state \<Rightarrow> exn \<times> state" where
  "run_app e s =
     (case app s of
        None \<Rightarrow>
          (AttributeError (none_has_no_attribute ''setApplicationName''), s)
      | Some h \<Rightarrow>
          (let s1 = call (setApplicationVersion h (SETUP_version e))
                      (call (setApplicationName h ''openshot'') s);
               s2 = (if has_setDesktopFile e
                     then call (setDesktopFile h ''org.openshot.OpenShot'') s1 else s1)
           in (SystemExit (Some (exec_result e h)), call (exec_loop h) (call (gui h) s2))))"

text \<open>
  Lines 179 to 185. The constructor gets \<^verbatim>\<open>sys.argv[0]\<close>, then \<^verbatim>\<open>extra_args\<close>, then
  \<^verbatim>\<open>args.remain\<close>. When it raises, the assignment to \<^verbatim>\<open>app\<close> has not happened, and
  \<^verbatim>\<open>app.show_errors()\<close> is a call on whatever \<^verbatim>\<open>app\<close> held before: on \<^verbatim>\<open>None\<close> it raises
  \<^verbatim>\<open>AttributeError\<close>, which nothing in \<^verbatim>\<open>main\<close> catches.
\<close>

definition start_app :: "env \<Rightarrow> args \<Rightarrow> string list \<Rightarrow> state \<Rightarrow> exn \<times> state" where
  "start_app e a extra_args s =
     (let argv = [argv0 e] @ extra_args @ remain a;
          s1 = call (Construct argv) s
      in case OpenShotApp e argv of
           Inr h \<Rightarrow> run_app e (s1\<lparr>app := Some h\<rparr>)
         | Inl ex \<Rightarrow>
             (case app s1 of
                None \<Rightarrow> (AttributeError (none_has_no_attribute ''show_errors''), s1)
              | Some h \<Rightarrow> run_app e (call (show_errors h) s1)))"

subsection \<open>main and the script\<close>

text \<open>Line 174.\<close>

definition loaded_modules_line :: "env \<Rightarrow> string" where
  "loaded_modules_line e = ''Loaded modules from: '' @ PATH e"

definition main :: "env \<Rightarrow> args \<Rightarrow> string list \<Rightarrow> state \<Rightarrow> exn \<times> state" where
  "main e a extra_args s =
     (if version a then (SystemExit None, print_line (SETUP_version e) s)
      else
        let s1 = set_log_levels a s in
        if list_languages a then (SystemExit None, print_languages e s1)
        else
          let s2 = set_web_backend a (set_model_test e a (extend_sys_path e a s1)) in
          case set_language e a s2 of
            Inl r \<Rightarrow> r
          | Inr s3 \<Rightarrow>
              start_app e a extra_args (print_line (loaded_modules_line e) s3))"

text \<open>Running the script: the module body, then \<^verbatim>\<open>main()\<close>.\<close>

definition launch :: "env \<Rightarrow> args \<Rightarrow> string list \<Rightarrow> state \<Rightarrow> exn \<times> state" where
  "launch e a extra_args s = main e a extra_args (module_body e s)"

subsection \<open>Auxiliary notions for the statements\<close>

text \<open>
  The \<^verbatim>\<open>--lang\<close> value does not lead to \<^verbatim>\<open>sys.exit(-1)\<close>: it is absent, empty (both
  skipped by \<^verbatim>\<open>if args.lang:\<close>) or one of \<^verbatim>\<open>info.SUPPORTED_LANGUAGES\<close>.
\<close>

definition lang_accepted :: "env \<Rightarrow> args \<Rightarrow> bool" where
  "lang_accepted e a =
     (case lang a of None \<Rightarrow> True | Some l \<Rightarrow> l = [] \<or> l \<in> set (SUPPORTED_LANGUAGES e))"

text \<open>The resolved paths that the loop inserts, in command-line order.\<close>

definition resolved_existing :: "env \<Rightarrow> string list \<Rightarrow> string list" where
  "resolved_existing e ps =
     concat (map (\<lambda>p. case realpath e p of
                         Inl ex \<Rightarrow> []
                       | Inr rp \<Rightarrow> if path_exists e rp then [rp] else []) ps)"

text \<open>The one line the loop prints for a path.\<close>

definition path_message :: "env \<Rightarrow> string \<Rightarrow> string" where
  "path_message e p =
     (case realpath e p of
        Inl ex \<Rightarrow> ''Bad path '' @ p @ '': '' @ ex
      | Inr rp \<Rightarrow>
          if path_exists e rp then ''Added '' @ rp @ '' to PYTHONPATH''
          else rp @ '' does not exist'')"

definition paths_given :: "args \<Rightarrow> string list" where
  "paths_given a = (case py_path a of None \<Rightarrow> [] | Some ps \<Rightarrow> ps)"

subsection \<open>A concrete process\<close>

text \<open>
  The namespace of an empty command line (the defaults of the parser), a process state
  before the script has run, and an environment: \<^verbatim>\<open>/opt/lib\<close> and \<^verbatim>\<open>/opt/extra\<close> exist,
  \<^verbatim>\<open>../plugins\<close> resolves to \<^verbatim>\<open>/opt/plugins\<close>, which does not; the constructor returns
  handle 1 and the event loop ends with code 0. In \<open>failing_env\<close> the constructor raises.
\<close>

definition default_args :: args where
  "default_args =
     \<lparr>lang = None, list_languages = False, py_path = None, modeltest = False,
      web_backend = ''auto'', debug = False, debug_file = False, debug_console = False,
      version = False, remain = []\<rparr>"

definition fresh_state :: state where
  "fresh_state =
     \<lparr>sys_path = [''/usr/lib/python3''], LOG_LEVEL_FILE = ''INFO'',
      LOG_LEVEL_CONSOLE = ''INFO'', MODEL_TEST = False, WEB_BACKEND = ''auto'',
      CMDLINE_LANGUAGE = None, putenv_calls = [], app = None, stdout = [], calls = []\<rparr>"

definition example_env :: env where
  "example_env =
     \<lparr>argv0 = ''launch.py'', SETUP_version = ''2.5.1'', PATH = ''/usr/lib/openshot_qt'',
      SUPPORTED_LANGUAGES = [''en_US'', ''fr'', ''de''],
      get_all_languages = [(''en_US'', ''English (US)''), (''fr'', ''French''), (''de'', ''German'')],
      realpath = (\<lambda>p. if p = ''../plugins'' then Inr ''/opt/plugins''
                      else if p = ''lib'' then Inr ''/opt/lib'' else Inr p),
      path_exists = (\<lambda>p. p = ''/opt/lib'' \<or> p = ''/opt/extra''),
      environ = [],
      OpenShotApp = (\<lambda>argv. Inr 1),
      has_setDesktopFile = True,
      exec_result = (\<lambda>h. 0),
      classes_importable = True,
      OPENSHOT_PATH = ''/usr/lib/openshot_qt''\<rparr>"

definition failing_env :: env where
  "failing_env = example_env\<lparr>OpenShotApp := (\<lambda>argv. Inl ''could not connect to display'')\<rparr>"

section \<open>Properties\<close>

subsection \<open>What each step leaves alone\<close>

lemma print_line_fields [simp]:
  "sys_path (print_line l s) = sys_path s"
  "calls (print_line l s) = calls s"
  "app (print_line l s) = app s"
  "CMDLINE_LANGUAGE (print_line l s) = CMDLINE_LANGUAGE s"
  "LOG_LEVEL_FILE (print_line l s) = LOG_LEVEL_FILE s"
  "LOG_LEVEL_CONSOLE (print_line l s) = LOG_LEVEL_CONSOLE s"
  "MODEL_TEST (print_line l s) = MODEL_TEST s"
  "WEB_BACKEND (print_line l s) = WEB_BACKEND s"
  "putenv_calls (print_line l s) = putenv_calls s"
  "stdout (print_line l s) = stdout s @ [l]"
  by (simp_all add: print_line_def)

lemma call_fields [simp]:
  "sys_path (call ev s) = sys_path s"
  "calls (call ev s) = calls s @ [ev]"
  "app (call ev s) = app s"
  "CMDLINE_LANGUAGE (call ev s) = CMDLINE_LANGUAGE s"
  "LOG_LEVEL_FILE (call ev s) = LOG_LEVEL_FILE s"
  "LOG_LEVEL_CONSOLE (call ev s) = LOG_LEVEL_CONSOLE s"
  "MODEL_TEST (call ev s) = MODEL_TEST s"
  "WEB_BACKEND (call ev s) = WEB_BACKEND s"
  "putenv_calls (call ev s) = putenv_calls s"
  "stdout (call ev s) = stdout s"
  by (simp_all add: call_def)

lemma set_log_levels_fields [simp]:
  "sys_path (set_log_levels a s) = sys_path s"
  "calls (set_log_levels a s) = calls s"
  "app (set_log_levels a s) = app s"
  "CMDLINE_LANGUAGE (set_log_levels a s) = CMDLINE_LANGUAGE s"
  "MODEL_TEST (set_log_levels a s) = MODEL_TEST s"
  "WEB_BACKEND (set_log_levels a s) = WEB_BACKEND s"
  "putenv_calls (set_log_levels a s) = putenv_calls s"
  "stdout (set_log_levels a s) = stdout s"
  by (simp_all add: set_log_levels_def Let_def)

lemma add_path_fields [simp]:
  "calls (add_path e p s) = calls s"
  "app (add_path e p s) = app s"
  "CMDLINE_LANGUAGE (add_path e p s) = CMDLINE_LANGUAGE s"
  "LOG_LEVEL_FILE (add_path e p s) = LOG_LEVEL_FILE s"
  "LOG_LEVEL_CONSOLE (add_path e p s) = LOG_LEVEL_CONSOLE s"
  "MODEL_TEST (add_path e p s) = MODEL_TEST s"
  "WEB_BACKEND (add_path e p s) = WEB_BACKEND s"
  "putenv_calls (add_path e p s) = putenv_calls s"
  "stdout (add_path e p s) = stdout s @ [path_message e p]"
  by (simp_all add: add_path_def path_message_def split: sum.splits)

lemma sys_path_add_path:
  "sys_path (add_path e p s) = rev (resolved_existing e [p]) @ sys_path s"
  by (simp add: add_path_def resolved_existing_def split: sum.splits)

lemma resolved_existing_Cons:
  "resolved_existing e (p # ps) = resolved_existing e [p] @ resolved_existing e ps"
  by (simp add: resolved_existing_def)

lemma resolved_existing_append:
  "resolved_existing e (ps @ qs) = resolved_existing e ps @ resolved_existing e qs"
  by (simp add: resolved_existing_def)

lemma sys_path_add_paths:
  "sys_path (add_paths e ps s) = rev (resolved_existing e ps) @ sys_path s"
proof (induction ps arbitrary: s)
  case Nil
  show ?case by (simp add: resolved_existing_def)
next
  case (Cons p ps)
  show ?case
    by (simp add: Cons.IH sys_path_add_path resolved_existing_Cons [of e p ps])
qed

lemma stdout_add_paths:
  "stdout (add_paths e ps s) = stdout s @ map (path_message e) ps"
  by (induction ps arbitrary: s) simp_all

lemma add_paths_fields [simp]:
  "calls (add_paths e ps s) = calls s"
  "app (add_paths e ps s) = app s"
  "CMDLINE_LANGUAGE (add_paths e ps s) = CMDLINE_LANGUAGE s"
  "LOG_LEVEL_FILE (add_paths e ps s) = LOG_LEVEL_FILE s"
  "LOG_LEVEL_CONSOLE (add_paths e ps s) = LOG_LEVEL_CONSOLE s"
  "MODEL_TEST (add_paths e ps s) = MODEL_TEST s"
  "WEB_BACKEND (add_paths e ps s) = WEB_BACKEND s"
  "putenv_calls (add_paths e ps s) = putenv_calls s"
  by (induction ps arbitrary: s) simp_all

lemma extend_sys_path_fields [simp]:
  "calls (extend_sys_path e a s) = calls s"
  "app (extend_sys_path e a s) = app s"
  "CMDLINE_LANGUAGE (extend_sys_path e a s) = CMDLINE_LANGUAGE s"
  "LOG_LEVEL_FILE (extend_sys_path e a s) = LOG_LEVEL_FILE s"
  "LOG_LEVEL_CONSOLE (extend_sys_path e a s) = LOG_LEVEL_CONSOLE s"
  "MODEL_TEST (extend_sys_path e a s) = MODEL_TEST s"
  "WEB_BACKEND (extend_sys_path e a s) = WEB_BACKEND s"
  "putenv_calls (extend_sys_path e a s) = putenv_calls s"
  by (simp_all add: extend_sys_path_def split: option.splits)

lemma sys_path_extend_sys_path:
  "sys_path (extend_sys_path e a s) = rev (resolved_existing e (paths_given a)) @ sys_path s"
  by (simp add: extend_sys_path_def paths_given_def sys_path_add_paths resolved_existing_def
      split: option.splits)

lemma stdout_extend_sys_path:
  "stdout (extend_sys_path e a s) = stdout s @ map (path_message e) (paths_given a)"
  by (simp add: extend_sys_path_def paths_given_def stdout_add_paths split: option.splits)

lemma set_model_test_fields [simp]:
  "sys_path (set_model_test e a s) = sys_path s"
  "calls (set_model_test e a s) = calls s"
  "app (set_model_test e a s) = app s"
  "CMDLINE_LANGUAGE (set_model_test e a s) = CMDLINE_LANGUAGE s"
  "LOG_LEVEL_FILE (set_model_test e a s) = LOG_LEVEL_FILE s"
  "LOG_LEVEL_CONSOLE (set_model_test e a s) = LOG_LEVEL_CONSOLE s"
  "WEB_BACKEND (set_model_test e a s) = WEB_BACKEND s"
  "stdout (set_model_test e a s) = stdout s"
  by (simp_all add: set_model_test_def Let_def)

lemma set_web_backend_fields [simp]:
  "sys_path (set_web_backend a s) = sys_path s"
  "calls (set_web_backend a s) = calls s"
  "app (set_web_backend a s) = app s"
  "CMDLINE_LANGUAGE (set_web_backend a s) = CMDLINE_LANGUAGE s"
  "LOG_LEVEL_FILE (set_web_backend a s) = LOG_LEVEL_FILE s"
  "LOG_LEVEL_CONSOLE (set_web_backend a s) = LOG_LEVEL_CONSOLE s"
  "MODEL_TEST (set_web_backend a s) = MODEL_TEST s"
  "putenv_calls (set_web_backend a s) = putenv_calls s"
  "stdout (set_web_backend a s) = stdout s"
  by (simp_all add: set_web_backend_def)

lemma run_app_fields [simp]:
  "sys_path (snd (run_app e s)) = sys_path s"
  "app (snd (run_app e s)) = app s"
  "CMDLINE_LANGUAGE (snd (run_app e s)) = CMDLINE_LANGUAGE s"
  "LOG_LEVEL_FILE (snd (run_app e s)) = LOG_LEVEL_FILE s"
  "LOG_LEVEL_CONSOLE (snd (run_app e s)) = LOG_LEVEL_CONSOLE s"
  "MODEL_TEST (snd (run_app e s)) = MODEL_TEST s"
  "WEB_BACKEND (snd (run_app e s)) = WEB_BACKEND s"
  "putenv_calls (snd (run_app e s)) = putenv_calls s"
  "stdout (snd (run_app e s)) = stdout s"
  by (simp_all add: run_app_def Let_def split: option.splits)

lemma run_app_constructs_nothing:
  "filter is_Construct (calls (snd (run_app e s))) = filter is_Construct (calls s)"
  by (simp add: run_app_def Let_def split: option.splits)

lemma start_app_fields [simp]:
  "sys_path (snd (start_app e a x s)) = sys_path s"
  "CMDLINE_LANGUAGE (snd (start_app e a x s)) = CMDLINE_LANGUAGE s"
  "LOG_LEVEL_FILE (snd (start_app e a x s)) = LOG_LEVEL_FILE s"
  "LOG_LEVEL_CONSOLE (snd (start_app e a x s)) = LOG_LEVEL_CONSOLE s"
  "MODEL_TEST (snd (start_app e a x s)) = MODEL_TEST s"
  "WEB_BACKEND (snd (start_app e a x s)) = WEB_BACKEND s"
  "putenv_calls (snd (start_app e a x s)) = putenv_calls s"
  "stdout (snd (start_app e a x s)) = stdout s"
  by (simp_all add: start_app_def Let_def split: sum.splits option.splits)

lemma start_app_constructs_once:
  "filter is_Construct (calls (snd (start_app e a x s))) =
   filter is_Construct (calls s) @ [Construct (argv0 e # x @ remain a)]"
  by (simp add: start_app_def Let_def run_app_constructs_nothing
      split: sum.splits option.splits)

subsection \<open>The language check\<close>

lemma set_language_accepted:
  "lang_accepted e a \<Longrightarrow>
   set_language e a s =
     Inr (case lang a of
            None \<Rightarrow> s
          | Some l \<Rightarrow> if l = [] then s else s\<lparr>CMDLINE_LANGUAGE := Some l\<rparr>)"
  by (auto simp: lang_accepted_def set_language_def split: option.splits)

lemma set_language_rejected:
  "lang a = Some l \<Longrightarrow> l \<noteq> [] \<Longrightarrow> l \<notin> set (SUPPORTED_LANGUAGES e) \<Longrightarrow>
   set_language e a s = Inl (SystemExit (Some (- 1)), print_line (unsupported_message l) s)"
  by (simp add: set_language_def)

lemma set_language_Inr_fields:
  assumes "set_language e a s = Inr s'"
  shows "sys_path s' = sys_path s" and "calls s' = calls s" and "app s' = app s"
    and "stdout s' = stdout s" and "LOG_LEVEL_FILE s' = LOG_LEVEL_FILE s"
    and "LOG_LEVEL_CONSOLE s' = LOG_LEVEL_CONSOLE s" and "MODEL_TEST s' = MODEL_TEST s"
    and "WEB_BACKEND s' = WEB_BACKEND s" and "putenv_calls s' = putenv_calls s"
  using assms by (auto simp: set_language_def split: option.splits if_splits)

subsection \<open>The three ways through main\<close>

lemma main_proceeds:
  assumes "\<not> version a" "\<not> list_languages a" "lang_accepted e a"
  shows "\<exists>s3. main e a x s = start_app e a x s3 \<and>
           sys_path s3 = rev (resolved_existing e (paths_given a)) @ sys_path s \<and>
           calls s3 = calls s \<and> app s3 = app s \<and>
           stdout s3 = stdout s @ map (path_message e) (paths_given a) @
                         [loaded_modules_line e]"
proof -
  let ?s2 = "set_web_backend a (set_model_test e a (extend_sys_path e a (set_log_levels a s)))"
  obtain s3 where sl: "set_language e a ?s2 = Inr s3"
    using set_language_accepted [OF assms(3)] by blast
  have m: "main e a x s = start_app e a x (print_line (loaded_modules_line e) s3)"
    using assms(1,2) sl by (simp add: main_def Let_def)
  have "sys_path s3 = rev (resolved_existing e (paths_given a)) @ sys_path s"
    and "calls s3 = calls s" and "app s3 = app s"
    and "stdout s3 = stdout s @ map (path_message e) (paths_given a)"
    using set_language_Inr_fields [OF sl]
    by (simp_all add: sys_path_extend_sys_path stdout_extend_sys_path)
  with m show ?thesis
    by (intro exI [of _ "print_line (loaded_modules_line e) s3"]) simp
qed

lemma main_rejects:
  assumes "\<not> version a" "\<not> list_languages a" "lang a = Some l" "l \<noteq> []"
    "l \<notin> set (SUPPORTED_LANGUAGES e)"
  shows "main e a x s =
     (SystemExit (Some (- 1)),
      print_line (unsupported_message l)
        (set_web_backend a (set_model_test e a (extend_sys_path e a (set_log_levels a s)))))"
  using assms by (simp add: main_def Let_def set_language_rejected)

lemma main_version:
  "version a \<Longrightarrow> main e a x s = (SystemExit None, print_line (SETUP_version e) s)"
  by (simp add: main_def)

lemma fold_print_line:
  "fold (\<lambda>c. print_line (f c)) cs s = s\<lparr>stdout := stdout s @ map f cs\<rparr>"
  by (induction cs arbitrary: s) (simp_all add: print_line_def)

lemma print_languages_eq:
  "print_languages e s =
     s\<lparr>stdout := stdout s @ ''Supported Languages:'' # map language_line (get_all_languages e)\<rparr>"
  by (simp add: print_languages_def fold_print_line print_line_def)

lemma print_languages_fields [simp]:
  "sys_path (print_languages e s) = sys_path s"
  "calls (print_languages e s) = calls s"
  "app (print_languages e s) = app s"
  "CMDLINE_LANGUAGE (print_languages e s) = CMDLINE_LANGUAGE s"
  by (simp_all add: print_languages_eq)

lemma main_list_languages:
  "\<not> version a \<Longrightarrow> list_languages a \<Longrightarrow>
   main e a x s = (SystemExit None, print_languages e (set_log_levels a s))"
  by (simp add: main_def Let_def)

lemma sys_path_main:
  "sys_path (snd (main e a x s)) =
     (if version a \<or> list_languages a then sys_path s
      else rev (resolved_existing e (paths_given a)) @ sys_path s)"
proof (cases "version a \<or> list_languages a")
  case True
  then show ?thesis by (auto simp: main_def Let_def)
next
  case False
  then have nv: "\<not> version a" and nl: "\<not> list_languages a" by simp_all
  show ?thesis
  proof (cases "lang_accepted e a")
    case True
    from main_proceeds [OF nv nl True, of x s] False show ?thesis by auto
  next
    case False
    then obtain l where l: "lang a = Some l" "l \<noteq> []" "l \<notin> set (SUPPORTED_LANGUAGES e)"
      by (auto simp: lang_accepted_def split: option.splits)
    show ?thesis using nv nl
      by (simp add: main_rejects [OF nv nl l] sys_path_extend_sys_path)
  qed
qed

subsection \<open>The module search path\<close>

text \<open>
  C9. The path step only prepends: whatever the arguments, \<^verbatim>\<open>sys.path\<close> after \<^verbatim>\<open>main\<close> is
  its value before \<^verbatim>\<open>main\<close> with entries put in front, so every earlier entry is still
  there and in the same order. Over the whole script the earlier value is still a contiguous
  part of the result (the module body may append \<^verbatim>\<open>OPENSHOT_PATH\<close> at the end).
\<close>

theorem path_extension_only_prepends:
  "(\<exists>pre. sys_path (snd (main e a x s)) = pre @ sys_path s) \<and>
   (\<exists>pre post. sys_path (snd (launch e a x s)) = pre @ sys_path s @ post)"
proof
  show "\<exists>pre. sys_path (snd (main e a x s)) = pre @ sys_path s"
    by (simp add: sys_path_main)
  have "\<exists>post. sys_path (module_body e s) = sys_path s @ post"
    by (simp add: module_body_def Let_def)
  then obtain post where "sys_path (module_body e s) = sys_path s @ post" ..
  then show "\<exists>pre post. sys_path (snd (launch e a x s)) = pre @ sys_path s @ post"
    unfolding launch_def sys_path_main by (metis append_Nil)
qed

text \<open>
  C5. When \<^verbatim>\<open>--path A\<close> comes before \<^verbatim>\<open>--path B\<close> on the command line (other paths
  \<open>us\<close>, \<open>vs\<close>, \<open>ws\<close> around them) and both resolve to something that exists, the resolved
  \<open>B\<close> stands before the resolved \<open>A\<close> in \<^verbatim>\<open>sys.path\<close> after \<^verbatim>\<open>main\<close>: the path given last
  is searched first.
\<close>

theorem last_path_has_priority:
  assumes "\<not> version a" and "\<not> list_languages a"
    and "py_path a = Some (us @ [A] @ vs @ [B] @ ws)"
    and "realpath e A = Inr ra" and "path_exists e ra"
    and "realpath e B = Inr rb" and "path_exists e rb"
  shows "sys_path (snd (main e a x s)) =
           rev (resolved_existing e ws) @ [rb] @ rev (resolved_existing e vs) @ [ra] @
           rev (resolved_existing e us) @ sys_path s"
proof -
  have A: "resolved_existing e [A] = [ra]" and B: "resolved_existing e [B] = [rb]"
    using assms(4-7) by (simp_all add: resolved_existing_def)
  have "resolved_existing e (us @ [A] @ vs @ [B] @ ws) =
          resolved_existing e us @ [ra] @ resolved_existing e vs @ [rb] @ resolved_existing e ws"
    by (simp only: resolved_existing_append A B)
  moreover have "paths_given a = us @ [A] @ vs @ [B] @ ws"
    using assms(3) by (simp add: paths_given_def)
  ultimately have "rev (resolved_existing e (paths_given a)) =
      rev (resolved_existing e ws) @ [rb] @ rev (resolved_existing e vs) @ [ra] @
      rev (resolved_existing e us)"
    by simp
  then show ?thesis
    using assms(1,2) by (simp add: sys_path_main)
qed

theorem last_path_has_priority_witness:
  "\<not> version (default_args\<lparr>py_path := Some [''lib'', ''/opt/extra'']\<rparr>) \<and>
   \<not> list_languages (default_args\<lparr>py_path := Some [''lib'', ''/opt/extra'']\<rparr>) \<and>
   realpath example_env ''lib'' = Inr ''/opt/lib'' \<and> path_exists example_env ''/opt/lib'' \<and>
   realpath example_env ''/opt/extra'' = Inr ''/opt/extra'' \<and>
   path_exists example_env ''/opt/extra'' \<and>
   sys_path (snd (main example_env (default_args\<lparr>py_path := Some [''lib'', ''/opt/extra'']\<rparr>) []
                    fresh_state)) =
     [''/opt/extra'', ''/opt/lib'', ''/usr/lib/python3'']"
  using last_path_has_priority [of "default_args\<lparr>py_path := Some [''lib'', ''/opt/extra'']\<rparr>"
      "[]" "''lib''" "[]" "''/opt/extra''" "[]" example_env "''/opt/lib''" "''/opt/extra''"
      "[]" fresh_state]
  by (simp add: default_args_def example_env_def fresh_state_def resolved_existing_def)

subsection \<open>What the module body does\<close>

lemma calls_module_body [simp]: "calls (module_body e s) = calls s @ [init_sentry_tracing]"
  by (simp add: module_body_def Let_def)

lemma app_module_body [simp]: "app (module_body e s) = None"
  by (simp add: module_body_def Let_def)

lemma stdout_module_body [simp]: "stdout (module_body e s) = stdout s"
  by (simp add: module_body_def Let_def)

lemma sys_path_module_body:
  "sys_path (module_body e s) =
     (if classes_importable e then sys_path s else sys_path s @ [OPENSHOT_PATH e])"
  by (simp add: module_body_def Let_def)

lemma start_app_fails_on_None:
  assumes "OpenShotApp e (argv0 e # x @ remain a) = Inl ex" and "app s = None"
  shows "start_app e a x s =
           (AttributeError (none_has_no_attribute ''show_errors''),
            call (Construct (argv0 e # x @ remain a)) s)"
  using assms by (simp add: start_app_def Let_def)

subsection \<open>The version query\<close>

text \<open>
  C3, as stated, fails: the script calls the tracing hook in its module body (line 80),
  before \<^verbatim>\<open>main\<close> parses anything, so a run with \<^verbatim>\<open>--version\<close> has called it too. Here
  no call had been made before the run, and one has been made after it.
\<close>

theorem version_run_counterexample:
  "version (default_args\<lparr>version := True\<rparr>) \<and>
   calls fresh_state = [] \<and>
   calls (snd (launch example_env (default_args\<lparr>version := True\<rparr>) [] fresh_state)) =
     [init_sentry_tracing]"
  by (simp add: launch_def main_version default_args_def fresh_state_def)

text \<open>
  C3, amended. With the version flag set, \<^verbatim>\<open>main\<close> prints the version string and leaves
  through \<^verbatim>\<open>sys.exit()\<close> (exit status 0) having done nothing else: it changes neither
  \<^verbatim>\<open>sys.path\<close> nor any setting, and constructs no application. Over the whole script the
  only collaborator call is the one call of the tracing hook made by the module body, and
  \<^verbatim>\<open>sys.path\<close> is what the module body left (it appends \<^verbatim>\<open>OPENSHOT_PATH\<close> when \<^verbatim>\<open>classes\<close>
  cannot be imported).
\<close>

theorem version_exits_before_main_does_anything:
  assumes "version a"
  shows "main e a x s = (SystemExit None, print_line (SETUP_version e) s) \<and>
         exit_code (fst (launch e a x s)) = 0 \<and>
         stdout (snd (launch e a x s)) = stdout s @ [SETUP_version e] \<and>
         sys_path (snd (launch e a x s)) =
           (if classes_importable e then sys_path s else sys_path s @ [OPENSHOT_PATH e]) \<and>
         calls (snd (launch e a x s)) = calls s @ [init_sentry_tracing] \<and>
         app (snd (launch e a x s)) = None"
  using assms by (simp add: launch_def main_version sys_path_module_body)

theorem version_exits_before_main_does_anything_witness:
  "version (default_args\<lparr>version := True, py_path := Some [''lib'']\<rparr>) \<and>
   exit_code (fst (launch example_env
       (default_args\<lparr>version := True, py_path := Some [''lib'']\<rparr>) [] fresh_state)) = 0 \<and>
   stdout (snd (launch example_env
       (default_args\<lparr>version := True, py_path := Some [''lib'']\<rparr>) [] fresh_state)) = [''2.5.1''] \<and>
   sys_path (snd (launch example_env
       (default_args\<lparr>version := True, py_path := Some [''lib'']\<rparr>) [] fresh_state)) =
     [''/usr/lib/python3''] \<and>
   calls (snd (launch example_env
       (default_args\<lparr>version := True, py_path := Some [''lib'']\<rparr>) [] fresh_state)) =
     [init_sentry_tracing]"
  using version_exits_before_main_does_anything
    [of "default_args\<lparr>version := True, py_path := Some [''lib'']\<rparr>" example_env "[]" fresh_state]
  by (simp add: default_args_def example_env_def fresh_state_def)

subsection \<open>The unsupported language\<close>

lemma sublist_unsupported_message: "sublist l (unsupported_message l)"
  unfolding unsupported_message_def sublist_def by (metis append.assoc)

lemma main_without_lang:
  assumes "\<not> version a" and "\<not> list_languages a"
  shows "\<exists>s3. main e (a\<lparr>lang := None\<rparr>) x s =
           start_app e (a\<lparr>lang := None\<rparr>) x (print_line (loaded_modules_line e) s3) \<and>
           s3 = set_web_backend a (set_model_test e a (extend_sys_path e a (set_log_levels a s)))"
  using assms
  by (simp add: main_def Let_def set_language_def set_web_backend_def set_model_test_def
      extend_sys_path_def set_log_levels_def)

text \<open>
  C2, as stated, fails: the language is checked last (lines 166 to 171), after the path
  loop, the model-test flag, the environment variable and the web backend. In this run the
  language \<^verbatim>\<open>xx\<close> is not supported, and yet \<^verbatim>\<open>sys.path\<close> has gained \<^verbatim>\<open>/opt/lib\<close>, the
  model-test flag is set, \<^verbatim>\<open>QT_LOGGING_RULES\<close> has been put into the environment and the web
  backend has changed.
\<close>

theorem bad_language_run_has_side_effects_counterexample:
  "lang (default_args\<lparr>lang := Some ''xx'', py_path := Some [''lib''], modeltest := True,
                      web_backend := ''webkit''\<rparr>) = Some ''xx'' \<and>
   ''xx'' \<notin> set (SUPPORTED_LANGUAGES example_env) \<and>
   sys_path fresh_state = [''/usr/lib/python3''] \<and>
   sys_path (snd (launch example_env
      (default_args\<lparr>lang := Some ''xx'', py_path := Some [''lib''], modeltest := True,
                    web_backend := ''webkit''\<rparr>) [] fresh_state)) =
     [''/opt/lib'', ''/usr/lib/python3''] \<and>
   \<not> MODEL_TEST fresh_state \<and>
   MODEL_TEST (snd (launch example_env
      (default_args\<lparr>lang := Some ''xx'', py_path := Some [''lib''], modeltest := True,
                    web_backend := ''webkit''\<rparr>) [] fresh_state)) \<and>
   putenv_calls (snd (launch example_env
      (default_args\<lparr>lang := Some ''xx'', py_path := Some [''lib''], modeltest := True,
                    web_backend := ''webkit''\<rparr>) [] fresh_state)) =
     [(''QT_LOGGING_RULES'', ''qt.modeltest.debug=true'')] \<and>
   WEB_BACKEND fresh_state = ''auto'' \<and>
   WEB_BACKEND (snd (launch example_env
      (default_args\<lparr>lang := Some ''xx'', py_path := Some [''lib''], modeltest := True,
                    web_backend := ''webkit''\<rparr>) [] fresh_state)) = ''webkit''"
  by (simp add: launch_def module_body_def main_def Let_def set_log_levels_def
      extend_sys_path_def add_path_def set_model_test_def getenv_def
      set_web_backend_def set_language_def call_def print_line_def lower_def lower_char_def
      default_args_def example_env_def fresh_state_def)

text \<open>
  C2, amended. When the language given is not empty and not supported (and neither the
  version nor the language list is asked for), \<^verbatim>\<open>main\<close> leaves through \<^verbatim>\<open>sys.exit(-1)\<close>
  before any later effect: no collaborator is called (no application is constructed), the
  global \<^verbatim>\<open>app\<close> and the command-line language keep their values. The earlier steps have
  been applied and stay: the state is the one after the log levels, the path loop, the
  model-test step and the web-backend step, plus the message; \<^verbatim>\<open>sys.path\<close>, both log levels,
  the model-test flag, the web backend and the \<^verbatim>\<open>putenv\<close> calls are the same as in the run
  with the same arguments and no \<^verbatim>\<open>--lang\<close>.
\<close>

theorem bad_language_exit_keeps_earlier_steps:
  assumes "\<not> version a" and "\<not> list_languages a"
    and "lang a = Some xx" and "xx \<noteq> []" and "xx \<notin> set (SUPPORTED_LANGUAGES e)"
  shows "main e a x s =
           (SystemExit (Some (- 1)),
            print_line (unsupported_message xx)
              (set_web_backend a (set_model_test e a
                 (extend_sys_path e a (set_log_levels a s))))) \<and>
         calls (snd (main e a x s)) = calls s \<and>
         app (snd (main e a x s)) = app s \<and>
         CMDLINE_LANGUAGE (snd (main e a x s)) = CMDLINE_LANGUAGE s \<and>
         sys_path (snd (main e a x s)) = sys_path (snd (main e (a\<lparr>lang := None\<rparr>) x s)) \<and>
         LOG_LEVEL_FILE (snd (main e a x s)) =
           LOG_LEVEL_FILE (snd (main e (a\<lparr>lang := None\<rparr>) x s)) \<and>
         LOG_LEVEL_CONSOLE (snd (main e a x s)) =
           LOG_LEVEL_CONSOLE (snd (main e (a\<lparr>lang := None\<rparr>) x s)) \<and>
         MODEL_TEST (snd (main e a x s)) = MODEL_TEST (snd (main e (a\<lparr>lang := None\<rparr>) x s)) \<and>
         WEB_BACKEND (snd (main e a x s)) = WEB_BACKEND (snd (main e (a\<lparr>lang := None\<rparr>) x s)) \<and>
         putenv_calls (snd (main e a x s)) =
           putenv_calls (snd (main e (a\<lparr>lang := None\<rparr>) x s))"
proof -
  obtain s3 where m: "main e (a\<lparr>lang := None\<rparr>) x s =
      start_app e (a\<lparr>lang := None\<rparr>) x (print_line (loaded_modules_line e) s3)"
    and s3: "s3 = set_web_backend a (set_model_test e a (extend_sys_path e a (set_log_levels a s)))"
    using main_without_lang [OF assms(1,2)] by blast
  show ?thesis
    unfolding main_rejects [OF assms] m s3 by simp
qed

theorem bad_language_exit_keeps_earlier_steps_witness:
  "\<not> version (default_args\<lparr>lang := Some ''xx'', py_path := Some [''lib'']\<rparr>) \<and>
   \<not> list_languages (default_args\<lparr>lang := Some ''xx'', py_path := Some [''lib'']\<rparr>) \<and>
   ''xx'' \<noteq> [] \<and> ''xx'' \<notin> set (SUPPORTED_LANGUAGES example_env) \<and>
   calls (snd (main example_env (default_args\<lparr>lang := Some ''xx'', py_path := Some [''lib'']\<rparr>)
                 [] fresh_state)) = [] \<and>
   CMDLINE_LANGUAGE (snd (main example_env
      (default_args\<lparr>lang := Some ''xx'', py_path := Some [''lib'']\<rparr>) [] fresh_state)) = None"
  using bad_language_exit_keeps_earlier_steps
    [of "default_args\<lparr>lang := Some ''xx'', py_path := Some [''lib'']\<rparr>" "''xx''"
      example_env "[]" fresh_state]
  by (simp add: default_args_def example_env_def fresh_state_def)

text \<open>
  C6, as stated, fails for the empty code: \<^verbatim>\<open>if args.lang:\<close> treats an empty \<^verbatim>\<open>--lang\<close>
  value as no value. The empty string is not a supported language here, and the run starts
  the application and ends with the event loop's code 0, printing no diagnostic.
\<close>

theorem empty_language_counterexample:
  "[] \<notin> set (SUPPORTED_LANGUAGES example_env) \<and>
   fst (main example_env (default_args\<lparr>lang := Some []\<rparr>) [] fresh_state) =
     SystemExit (Some 0) \<and>
   stdout (snd (main example_env (default_args\<lparr>lang := Some []\<rparr>) [] fresh_state)) =
     [''Loaded modules from: /usr/lib/openshot_qt'']"
  by (simp add: main_def Let_def set_log_levels_def extend_sys_path_def set_model_test_def
      set_web_backend_def set_language_def start_app_def run_app_def call_def print_line_def
      loaded_modules_line_def default_args_def example_env_def fresh_state_def)

text \<open>
  C6, amended. For every non-empty language code \<open>xx\<close> that is not supported, a run with
  \<^verbatim>\<open>--lang xx\<close> (and neither the version nor the language list asked for) leaves through
  \<^verbatim>\<open>sys.exit(-1)\<close>, and the last line it prints is the diagnostic, which contains \<open>xx\<close>
  verbatim (between quotes).
\<close>

theorem unsupported_language_exits:
  assumes "\<not> version a" and "\<not> list_languages a"
    and "lang a = Some xx" and "xx \<noteq> []" and "xx \<notin> set (SUPPORTED_LANGUAGES e)"
  shows "fst (main e a x s) = SystemExit (Some (- 1)) \<and>
         exit_code (fst (main e a x s)) = - 1 \<and>
         stdout (snd (main e a x s)) =
           stdout s @ map (path_message e) (paths_given a) @ [unsupported_message xx] \<and>
         sublist xx (unsupported_message xx)"
  by (simp add: main_rejects [OF assms] stdout_extend_sys_path sublist_unsupported_message)

theorem unsupported_language_exits_witness:
  "\<not> version (default_args\<lparr>lang := Some ''xx''\<rparr>) \<and>
   \<not> list_languages (default_args\<lparr>lang := Some ''xx''\<rparr>) \<and>
   ''xx'' \<noteq> [] \<and> ''xx'' \<notin> set (SUPPORTED_LANGUAGES example_env) \<and>
   fst (main example_env (default_args\<lparr>lang := Some ''xx''\<rparr>) [] fresh_state) =
     SystemExit (Some (- 1)) \<and>
   stdout (snd (main example_env (default_args\<lparr>lang := Some ''xx''\<rparr>) [] fresh_state)) =
     [unsupported_message ''xx'']"
  using unsupported_language_exits [of "default_args\<lparr>lang := Some ''xx''\<rparr>" "''xx''"
      example_env "[]" fresh_state]
  by (simp add: default_args_def example_env_def fresh_state_def paths_given_def)

lemma CMDLINE_LANGUAGE_main:
  "CMDLINE_LANGUAGE (snd (main e a x s)) =
     (case lang a of
        None \<Rightarrow> CMDLINE_LANGUAGE s
      | Some l \<Rightarrow>
          if \<not> version a \<and> \<not> list_languages a \<and> l \<noteq> [] \<and> l \<in> set (SUPPORTED_LANGUAGES e)
          then Some l else CMDLINE_LANGUAGE s)"
proof (cases "version a \<or> list_languages a")
  case True
  then show ?thesis by (auto simp: main_def Let_def split: option.splits)
next
  case False
  then have nv: "\<not> version a" and nl: "\<not> list_languages a" by simp_all
  show ?thesis
    using nv nl
    by (simp add: main_def Let_def set_language_def split: option.splits)
qed

text \<open>
  C10. Whenever the \<^verbatim>\<open>--lang\<close> code is not in the supported set, \<^verbatim>\<open>info.CMDLINE_LANGUAGE\<close>
  has after \<^verbatim>\<open>main\<close> the value it had before: the assignment of line 168 is made only when
  the membership test of line 167 succeeds.
\<close>

theorem unsupported_language_not_assigned:
  assumes "lang a = Some xx" and "xx \<notin> set (SUPPORTED_LANGUAGES e)"
  shows "CMDLINE_LANGUAGE (snd (main e a x s)) = CMDLINE_LANGUAGE s"
  using assms by (simp add: CMDLINE_LANGUAGE_main)

theorem unsupported_language_not_assigned_witness:
  "lang (default_args\<lparr>lang := Some ''xx''\<rparr>) = Some ''xx'' \<and>
   ''xx'' \<notin> set (SUPPORTED_LANGUAGES example_env) \<and>
   CMDLINE_LANGUAGE (snd (main example_env (default_args\<lparr>lang := Some ''xx''\<rparr>) []
      (fresh_state\<lparr>CMDLINE_LANGUAGE := Some ''fr''\<rparr>))) = Some ''fr''"
  using unsupported_language_not_assigned [of "default_args\<lparr>lang := Some ''xx''\<rparr>" "''xx''"
      example_env "[]" "fresh_state\<lparr>CMDLINE_LANGUAGE := Some ''fr''\<rparr>"]
  by (simp add: default_args_def example_env_def fresh_state_def)

subsection \<open>Construction of the application\<close>

text \<open>
  C4, as stated, fails: the constructor gets the program name, then the tokens the parser
  did not recognise (\<^verbatim>\<open>extra_args\<close>), then the passthrough arguments (\<^verbatim>\<open>args.remain\<close>); the
  claim has the last two the other way round. For \<^verbatim>\<open>launch.py -style fusion project.osp\<close>
  the parser leaves \<^verbatim>\<open>-style\<close> unrecognised and the two other tokens in \<^verbatim>\<open>remain\<close>; the
  constructor is called with the tokens in their command-line order, and never with the
  order of the claim.
\<close>

theorem constructor_argv_counterexample:
  "calls (snd (main example_env (default_args\<lparr>remain := [''fusion'', ''project.osp'']\<rparr>)
                 [''-style''] fresh_state)) ! 0 =
     Construct [''launch.py'', ''-style'', ''fusion'', ''project.osp''] \<and>
   Construct ([argv0 example_env] @ remain (default_args\<lparr>remain := [''fusion'', ''project.osp'']\<rparr>)
                @ [''-style'']) \<notin>
     set (calls (snd (main example_env (default_args\<lparr>remain := [''fusion'', ''project.osp'']\<rparr>)
                        [''-style''] fresh_state)))"
  by (simp add: main_def Let_def set_log_levels_def extend_sys_path_def set_model_test_def
      set_web_backend_def set_language_def start_app_def run_app_def call_def print_line_def
      default_args_def example_env_def fresh_state_def)

text \<open>
  C4, amended. When the application is constructed (no version query, no language list, the
  language accepted), the constructor is called exactly once in \<^verbatim>\<open>main\<close>, and its argument
  is the program name, followed by the unrecognised arguments, followed by the passthrough
  arguments.
\<close>

theorem constructor_argv:
  assumes "\<not> version a" and "\<not> list_languages a" and "lang_accepted e a"
  shows "filter is_Construct (calls (snd (main e a x s))) =
           filter is_Construct (calls s) @ [Construct ([argv0 e] @ x @ remain a)]"
proof -
  obtain s3 where m: "main e a x s = start_app e a x s3" and c: "calls s3 = calls s"
    using main_proceeds [OF assms, of x s] by blast
  show ?thesis by (simp add: m start_app_constructs_once c)
qed

theorem constructor_argv_witness:
  "\<not> version (default_args\<lparr>remain := [''fusion'', ''project.osp'']\<rparr>) \<and>
   \<not> list_languages (default_args\<lparr>remain := [''fusion'', ''project.osp'']\<rparr>) \<and>
   lang_accepted example_env (default_args\<lparr>remain := [''fusion'', ''project.osp'']\<rparr>) \<and>
   filter is_Construct (calls (snd (main example_env
       (default_args\<lparr>remain := [''fusion'', ''project.osp'']\<rparr>) [''-style''] fresh_state))) =
     [Construct [''launch.py'', ''-style'', ''fusion'', ''project.osp'']]"
  using constructor_argv [of "default_args\<lparr>remain := [''fusion'', ''project.osp'']\<rparr>"
      example_env "[''-style'']" fresh_state]
  by (simp add: default_args_def example_env_def fresh_state_def lang_accepted_def)

text \<open>
  C1. The claim asks that a failure of the constructor be reported through
  \<^verbatim>\<open>show_errors\<close> without anything being thrown, even with no handle. The code does not do
  that: in a run of the script the global \<^verbatim>\<open>app\<close> is \<^verbatim>\<open>None\<close> when the constructor raises,
  so \<^verbatim>\<open>app.show_errors()\<close> in the handler raises \<^verbatim>\<open>AttributeError\<close>, which leaves \<^verbatim>\<open>main\<close>
  uncaught (exit status 1); no call of \<^verbatim>\<open>show_errors\<close> is made.
\<close>

theorem construction_failure_escapes_as_AttributeError:
  assumes "\<not> version a" and "\<not> list_languages a" and "lang_accepted e a"
    and "OpenShotApp e (argv0 e # x @ remain a) = Inl ex"
  shows "fst (launch e a x s) = AttributeError (none_has_no_attribute ''show_errors'') \<and>
         exit_code (fst (launch e a x s)) = 1 \<and>
         calls (snd (launch e a x s)) =
           calls s @ [init_sentry_tracing, Construct (argv0 e # x @ remain a)]"
proof -
  obtain s3 where m: "main e a x (module_body e s) = start_app e a x s3"
    and c: "calls s3 = calls (module_body e s)" and ap: "app s3 = app (module_body e s)"
    using main_proceeds [OF assms(1-3), of x "module_body e s"] by blast
  have "app s3 = None" using ap by simp
  from start_app_fails_on_None [OF assms(4) this] m c show ?thesis
    by (simp add: launch_def)
qed

theorem construction_failure_escapes_as_AttributeError_witness:
  "\<not> version default_args \<and> \<not> list_languages default_args \<and>
   lang_accepted failing_env default_args \<and>
   OpenShotApp failing_env (argv0 failing_env # [] @ remain default_args) =
     Inl ''could not connect to display'' \<and>
   fst (launch failing_env default_args [] fresh_state) =
     AttributeError (none_has_no_attribute ''show_errors'') \<and>
   exit_code (fst (launch failing_env default_args [] fresh_state)) = 1 \<and>
   calls (snd (launch failing_env default_args [] fresh_state)) =
     [init_sentry_tracing, Construct [''launch.py'']]"
  using construction_failure_escapes_as_AttributeError [of default_args failing_env "[]"
      "''could not connect to display''" fresh_state]
  by (simp add: default_args_def failing_env_def example_env_def fresh_state_def
      lang_accepted_def)

subsection \<open>Missing paths\<close>

text \<open>
  C7, as stated, fails: the diagnostic names the resolved path (\<^verbatim>\<open>os.path.realpath(p)\<close>),
  not the path as given. Here \<^verbatim>\<open>../plugins\<close> resolves to \<^verbatim>\<open>/opt/plugins\<close>, which does not
  exist; the line printed is about \<^verbatim>\<open>/opt/plugins\<close>, and no printed line contains
  \<^verbatim>\<open>../plugins\<close>.
\<close>

theorem missing_path_named_as_given_counterexample:
  "realpath example_env ''../plugins'' = Inr ''/opt/plugins'' \<and>
   \<not> path_exists example_env ''/opt/plugins'' \<and>
   stdout (snd (main example_env (default_args\<lparr>py_path := Some [''../plugins'']\<rparr>) []
                  fresh_state)) =
     [''/opt/plugins does not exist'', ''Loaded modules from: /usr/lib/openshot_qt''] \<and>
   \<not> list_ex (sublist ''../plugins'')
       (stdout (snd (main example_env (default_args\<lparr>py_path := Some [''../plugins'']\<rparr>) []
                       fresh_state)))"
proof -
  have out: "stdout (snd (main example_env (default_args\<lparr>py_path := Some [''../plugins'']\<rparr>) []
                  fresh_state)) =
     [''/opt/plugins does not exist'', ''Loaded modules from: /usr/lib/openshot_qt'']"
    by (simp add: main_def Let_def set_log_levels_def extend_sys_path_def add_path_def
        set_model_test_def set_web_backend_def set_language_def start_app_def run_app_def
        call_def print_line_def loaded_modules_line_def default_args_def example_env_def
        fresh_state_def)
  have no: "\<not> list_ex (sublist ''../plugins'')
       [''/opt/plugins does not exist'', ''Loaded modules from: /usr/lib/openshot_qt'']"
    by code_simp
  show ?thesis
    unfolding out using no by (simp add: example_env_def)
qed

text \<open>
  C7, amended. In a run that reaches the path loop (neither the version nor the language
  list is asked for), for every \<^verbatim>\<open>--path\<close> argument whose resolved path does not exist the
  run does not abort: it prints the missing-path diagnostic naming the resolved path
  (\<^verbatim>\<open>os.path.realpath\<close> of the argument, not the argument as given), goes on with the
  remaining entries (one line is printed per entry, in order, and every entry that resolves
  to an existing path is inserted) and on to the statements after the loop. It then
  constructs the application, unless the run ends at an unsupported \<^verbatim>\<open>--lang\<close>: in that
  case it leaves through \<^verbatim>\<open>sys.exit(-1)\<close> after the loop, without constructing.
\<close>

theorem missing_path_is_reported_and_skipped:
  assumes "\<not> version a" and "\<not> list_languages a"
    and "py_path a = Some ps" and "p \<in> set ps"
    and "realpath e p = Inr rp" and "\<not> path_exists e rp"
  shows "rp @ '' does not exist'' \<in> set (stdout (snd (main e a x s))) \<and>
         (\<exists>l. stdout (snd (main e a x s)) = stdout s @ map (path_message e) ps @ [l]) \<and>
         sys_path (snd (main e a x s)) = rev (resolved_existing e ps) @ sys_path s \<and>
         (lang_accepted e a \<longrightarrow>
            stdout (snd (main e a x s)) =
              stdout s @ map (path_message e) ps @ [loaded_modules_line e] \<and>
            filter is_Construct (calls (snd (main e a x s))) =
              filter is_Construct (calls s) @ [Construct ([argv0 e] @ x @ remain a)]) \<and>
         (\<not> lang_accepted e a \<longrightarrow>
            fst (main e a x s) = SystemExit (Some (- 1)) \<and>
            calls (snd (main e a x s)) = calls s)"
proof -
  have pg: "paths_given a = ps" using assms(3) by (simp add: paths_given_def)
  have "path_message e p = rp @ '' does not exist''"
    using assms(5,6) by (simp add: path_message_def)
  then have line: "rp @ '' does not exist'' \<in> set (map (path_message e) ps)"
    using assms(4) by force
  have sp: "sys_path (snd (main e a x s)) = rev (resolved_existing e ps) @ sys_path s"
    using assms(1,2) by (simp add: sys_path_main pg)
  show ?thesis
  proof (cases "lang_accepted e a")
    case True
    obtain s3 where m: "main e a x s = start_app e a x s3" and c: "calls s3 = calls s"
      and out: "stdout s3 =
        stdout s @ map (path_message e) (paths_given a) @ [loaded_modules_line e]"
      using main_proceeds [OF assms(1,2) True, of x s] by blast
    have o: "stdout (snd (main e a x s)) =
        stdout s @ map (path_message e) ps @ [loaded_modules_line e]"
      by (simp add: m out pg)
    have k: "filter is_Construct (calls (snd (main e a x s))) =
        filter is_Construct (calls s) @ [Construct ([argv0 e] @ x @ remain a)]"
      by (simp add: m c start_app_constructs_once)
    from line sp o k True show ?thesis by simp
  next
    case False
    then obtain l where l: "lang a = Some l" "l \<noteq> []" "l \<notin> set (SUPPORTED_LANGUAGES e)"
      by (auto simp: lang_accepted_def split: option.splits)
    have o: "stdout (snd (main e a x s)) =
        stdout s @ map (path_message e) ps @ [unsupported_message l]"
      by (simp add: main_rejects [OF assms(1,2) l] stdout_extend_sys_path pg)
    have k: "fst (main e a x s) = SystemExit (Some (- 1))" "calls (snd (main e a x s)) = calls s"
      by (simp_all add: main_rejects [OF assms(1,2) l])
    from line sp o k False show ?thesis by simp
  qed
qed

theorem missing_path_is_reported_and_skipped_witness:
  "\<not> version (default_args\<lparr>py_path := Some [''../plugins'', ''lib'']\<rparr>) \<and>
   \<not> list_languages (default_args\<lparr>py_path := Some [''../plugins'', ''lib'']\<rparr>) \<and>
   ''../plugins'' \<in> set [''../plugins'', ''lib''] \<and>
   realpath example_env ''../plugins'' = Inr ''/opt/plugins'' \<and>
   \<not> path_exists example_env ''/opt/plugins'' \<and>
   lang_accepted example_env (default_args\<lparr>py_path := Some [''../plugins'', ''lib'']\<rparr>) \<and>
   stdout (snd (main example_env (default_args\<lparr>py_path := Some [''../plugins'', ''lib'']\<rparr>) []
                  fresh_state)) =
     [''/opt/plugins does not exist'', ''Added /opt/lib to PYTHONPATH'',
      ''Loaded modules from: /usr/lib/openshot_qt''] \<and>
   sys_path (snd (main example_env (default_args\<lparr>py_path := Some [''../plugins'', ''lib'']\<rparr>) []
                    fresh_state)) =
     [''/opt/lib'', ''/usr/lib/python3''] \<and>
   filter is_Construct
     (calls (snd (main example_env (default_args\<lparr>py_path := Some [''../plugins'', ''lib'']\<rparr>) []
                    fresh_state))) =
     [Construct [''launch.py'']] \<and>
   \<not> lang_accepted example_env
       (default_args\<lparr>py_path := Some [''../plugins'', ''lib''], lang := Some ''xx''\<rparr>) \<and>
   ''/opt/plugins does not exist'' \<in>
     set (stdout (snd (main example_env
       (default_args\<lparr>py_path := Some [''../plugins'', ''lib''], lang := Some ''xx''\<rparr>) []
       fresh_state))) \<and>
   sys_path (snd (main example_env
       (default_args\<lparr>py_path := Some [''../plugins'', ''lib''], lang := Some ''xx''\<rparr>) []
       fresh_state)) =
     [''/opt/lib'', ''/usr/lib/python3''] \<and>
   fst (main example_env
       (default_args\<lparr>py_path := Some [''../plugins'', ''lib''], lang := Some ''xx''\<rparr>) []
       fresh_state) = SystemExit (Some (- 1)) \<and>
   calls (snd (main example_env
       (default_args\<lparr>py_path := Some [''../plugins'', ''lib''], lang := Some ''xx''\<rparr>) []
       fresh_state)) = []"
  using missing_path_is_reported_and_skipped
    [of "default_args\<lparr>py_path := Some [''../plugins'', ''lib'']\<rparr>"
      "[''../plugins'', ''lib'']" "''../plugins''" example_env "''/opt/plugins''" "[]"
      fresh_state]
    missing_path_is_reported_and_skipped
    [of "default_args\<lparr>py_path := Some [''../plugins'', ''lib''], lang := Some ''xx''\<rparr>"
      "[''../plugins'', ''lib'']" "''../plugins''" example_env "''/opt/plugins''" "[]"
      fresh_state]
  by (simp add: default_args_def example_env_def fresh_state_def lang_accepted_def
      path_message_def resolved_existing_def loaded_modules_line_def)

subsection \<open>Log levels\<close>

lemma set_log_levels_debug:
  "set_log_levels (a\<lparr>debug := True, debug_file := False, debug_console := False\<rparr>) s =
   set_log_levels (a\<lparr>debug := False, debug_file := True, debug_console := True\<rparr>) s"
  by (simp add: set_log_levels_def)

lemma extend_sys_path_debug:
  "extend_sys_path e (a\<lparr>debug := d, debug_file := f, debug_console := c\<rparr>) s =
   extend_sys_path e a s"
  by (simp add: extend_sys_path_def)

lemma set_model_test_debug:
  "set_model_test e (a\<lparr>debug := d, debug_file := f, debug_console := c\<rparr>) s =
   set_model_test e a s"
  by (simp add: set_model_test_def)

lemma set_web_backend_debug:
  "set_web_backend (a\<lparr>debug := d, debug_file := f, debug_console := c\<rparr>) s =
   set_web_backend a s"
  by (simp add: set_web_backend_def)

lemma set_language_debug:
  "set_language e (a\<lparr>debug := d, debug_file := f, debug_console := c\<rparr>) s =
   set_language e a s"
  by (simp add: set_language_def)

lemma start_app_debug:
  "start_app e (a\<lparr>debug := d, debug_file := f, debug_console := c\<rparr>) x s =
   start_app e a x s"
  by (simp add: start_app_def)

lemma main_debug:
  "main e (a\<lparr>debug := True, debug_file := False, debug_console := False\<rparr>) x s =
   main e (a\<lparr>debug := False, debug_file := True, debug_console := True\<rparr>) x s"
  unfolding main_def
  by (simp only: extend_sys_path_debug set_model_test_debug set_web_backend_debug
      set_language_debug start_app_debug set_log_levels_debug) simp

text \<open>
  C8. Running with \<^verbatim>\<open>--debug\<close> alone and running with \<^verbatim>\<open>--debug-file --debug-console\<close>
  together, all other arguments being the same, leave the same severity on the file channel
  and the same on the console channel (the two runs agree in everything).
\<close>

theorem debug_alone_is_debug_file_and_debug_console:
  "LOG_LEVEL_FILE
     (snd (launch e (a\<lparr>debug := True, debug_file := False, debug_console := False\<rparr>) x s)) =
   LOG_LEVEL_FILE
     (snd (launch e (a\<lparr>debug := False, debug_file := True, debug_console := True\<rparr>) x s)) \<and>
   LOG_LEVEL_CONSOLE
     (snd (launch e (a\<lparr>debug := True, debug_file := False, debug_console := False\<rparr>) x s)) =
   LOG_LEVEL_CONSOLE
     (snd (launch e (a\<lparr>debug := False, debug_file := True, debug_console := True\<rparr>) x s)) \<and>
   launch e (a\<lparr>debug := True, debug_file := False, debug_console := False\<rparr>) x s =
   launch e (a\<lparr>debug := False, debug_file := True, debug_console := True\<rparr>) x s"
  by (simp add: launch_def main_debug)

end
